theory Spec2Isabelle
  imports Complex_Main "HOL-Library.Sublist"
begin

section \<open>Option leverage plotter: the numeric core of leapCallQuote.py\<close>

text \<open>
  The program fetches an option chain, computes two leverage series over the strikes of
  the call options, keeps the strikes of a percentage band around the stock price and
  plots them. The functions embedded here are \<^verbatim>\<open>get_default_expiration\<close>,
  \<^verbatim>\<open>calculate_leverage_ratios\<close> and the band filter of \<^verbatim>\<open>main\<close>. Fetching, the
  widgets and the plot are not modelled: what they hand to the core (the list of
  expiration strings, the clock, the option rows, the price and the slider values) is a
  parameter of the model.
\<close>

subsection \<open>Python exceptions\<close>

text \<open>
  The only exceptions the embedded code can raise: \<^verbatim>\<open>ValueError\<close> (the builtin
  \<^verbatim>\<open>min\<close> on an empty sequence, \<^verbatim>\<open>datetime.strptime\<close> on a string that does not
  match the format) and \<^verbatim>\<open>IndexError\<close> (a NumPy boolean mask whose length differs from
  the array it indexes).
\<close>

datatype py_error = ValueError | IndexError

subsection \<open>NumPy floats\<close>

text \<open>
  In the engine a float64 is modelled as an exact real number or one of the three
  non-finite values. Rounding, overflow of a finite result and the sign of zero are not
  modelled there: every zero divisor of the program is the positive zero (an
  \<^verbatim>\<open>ask\<close> of 0.0, or \<^verbatim>\<open>0 / 100\<close>). Under NumPy's default error state a division
  by zero inside an array operation does not raise: it warns and stores \<^verbatim>\<open>inf\<close>,
  \<^verbatim>\<open>-inf\<close> or \<^verbatim>\<open>nan\<close> in the result array.

  The finite numbers of the engine's series therefore agree with the program up to
  rounding. One outcome of the engine depends on a rounding: at a row whose ask is 0 and
  whose strike is the exact target price, the program's rounded target can lie above the
  strike, and the adjusted ratio is then \<^verbatim>\<open>inf\<close> where the exact target gives
  \<^verbatim>\<open>nan\<close>. Both are non-finite, and no general statement below says which of the
  non-finite values a row with a zero ask gets in the adjusted series. In the band filter of \<^verbatim>\<open>main\<close>
  a rounding decides whether a row is kept, so the rounding is modelled there.
\<close>

datatype npfloat = Num real | PosInf | NegInf | NaN

fun np_div :: "npfloat \<Rightarrow> npfloat \<Rightarrow> npfloat" where
  "np_div NaN y = NaN"
| "np_div x NaN = NaN"
| "np_div (Num a) (Num b) =
     (if b = 0 then (if a = 0 then NaN else if 0 < a then PosInf else NegInf)
      else Num (a / b))"
| "np_div (Num a) PosInf = Num 0"
| "np_div (Num a) NegInf = Num 0"
| "np_div PosInf (Num b) = (if 0 \<le> b then PosInf else NegInf)"
| "np_div NegInf (Num b) = (if 0 \<le> b then NegInf else PosInf)"
| "np_div PosInf PosInf = NaN"
| "np_div PosInf NegInf = NaN"
| "np_div NegInf PosInf = NaN"
| "np_div NegInf NegInf = NaN"

subsection \<open>Choosing the default expiration\<close>

text \<open>
  \<^verbatim>\<open>min(iterable, key=f)\<close> of Python: it raises \<^verbatim>\<open>ValueError\<close> on an empty
  iterable; otherwise it scans from left to right, keeps the first item, and replaces the
  kept item only by one whose key is strictly smaller. An exception of the key function
  leaves the scan at once.
\<close>

fun min_scan :: "('a \<Rightarrow> py_error + int) \<Rightarrow> 'a \<Rightarrow> int \<Rightarrow> 'a list \<Rightarrow> py_error + 'a" where
  "min_scan key best bestkey [] = Inr best"
| "min_scan key best bestkey (x # xs) =
     (case key x of
        Inl e \<Rightarrow> Inl e
      | Inr k \<Rightarrow> if k < bestkey then min_scan key x k xs else min_scan key best bestkey xs)"

fun min_key :: "('a \<Rightarrow> py_error + int) \<Rightarrow> 'a list \<Rightarrow> py_error + 'a" where
  "min_key key [] = Inl ValueError"
| "min_key key (x # xs) =
     (case key x of Inl e \<Rightarrow> Inl e | Inr k \<Rightarrow> min_scan key x k xs)"

text \<open>
  A \<^verbatim>\<open>datetime\<close> is its number of microseconds since a fixed origin, a
  \<^verbatim>\<open>timedelta\<close> a number of microseconds. \<^verbatim>\<open>datetime.today()\<close> reads the clock and
  \<^verbatim>\<open>datetime.strptime(x, '%Y-%m-%d')\<close> is library code: both are parameters,
  \<open>today\<close> and \<open>strptime\<close>, the latter returning \<open>Inl ValueError\<close> where the
  library raises.
\<close>

definition timedelta_days :: "int \<Rightarrow> int" where
  "timedelta_days d = d * 86400000000"

definition get_default_expiration ::
  "(string \<Rightarrow> py_error + int) \<Rightarrow> int \<Rightarrow> string list \<Rightarrow> py_error + string" where
  "get_default_expiration strptime today expirations =
     (let one_year_later = today + timedelta_days 365
      in min_key (\<lambda>x. case strptime x of
                          Inl e \<Rightarrow> Inl e
                        | Inr d \<Rightarrow> Inr \<bar>d - one_year_later\<bar>) expirations)"

subsection \<open>Leverage ratios\<close>

text \<open>
  The \<^verbatim>\<open>calls\<close> data frame is a list of rows; only the columns the program reads are
  kept. A column (\<^verbatim>\<open>calls['strike'].values\<close>) is the list of that field over the rows,
  so the columns of one frame have the same length by construction.
\<close>

record call_row =
  strike :: real
  ask :: real

text \<open>The local variables of \<^verbatim>\<open>calculate_leverage_ratios\<close>, in the order of the source.\<close>

definition leverage_ratios :: "call_row list \<Rightarrow> real \<Rightarrow> npfloat list" where
  "leverage_ratios calls stock_price =
     map (\<lambda>premium. np_div (Num stock_price) (Num premium)) (map ask calls)"

definition future_price :: "real \<Rightarrow> real \<Rightarrow> real" where
  "future_price stock_price gain_pct = stock_price * (1 + gain_pct / 100)"

definition intrinsic_gains :: "call_row list \<Rightarrow> real \<Rightarrow> real \<Rightarrow> real list" where
  "intrinsic_gains calls stock_price gain_pct =
     map (\<lambda>k. max (future_price stock_price gain_pct - k) 0) (map strike calls)"

definition premium_gains :: "call_row list \<Rightarrow> real \<Rightarrow> real \<Rightarrow> real list" where
  "premium_gains calls stock_price gain_pct =
     map2 (\<lambda>g premium. g - premium) (intrinsic_gains calls stock_price gain_pct) (map ask calls)"

definition adjusted_ratios :: "call_row list \<Rightarrow> real \<Rightarrow> real \<Rightarrow> npfloat list" where
  "adjusted_ratios calls stock_price gain_pct =
     map (\<lambda>q. np_div q (Num (gain_pct / 100)))
       (map2 (\<lambda>g premium. np_div (Num g) (Num premium))
          (premium_gains calls stock_price gain_pct) (map ask calls))"

definition calculate_leverage_ratios ::
  "call_row list \<Rightarrow> real \<Rightarrow> real \<Rightarrow> real list \<times> npfloat list \<times> npfloat list \<times> real list" where
  "calculate_leverage_ratios calls stock_price gain_pct =
     (map strike calls,
      leverage_ratios calls stock_price,
      adjusted_ratios calls stock_price gain_pct,
      map ask calls)"

subsection \<open>The strike band of main\<close>

text \<open>
  \<^verbatim>\<open>arr[mask]\<close> with a boolean array keeps the items of \<^verbatim>\<open>arr\<close> at the positions where
  the mask is true, in order; NumPy raises \<^verbatim>\<open>IndexError\<close> when the two lengths differ.
\<close>

definition mask_index :: "'a list \<Rightarrow> bool list \<Rightarrow> py_error + 'a list" where
  "mask_index arr sel =
     (if length sel = length arr then Inr (map fst (filter snd (zip arr sel)))
      else Inl IndexError)"

definition strike_mask :: "real list \<Rightarrow> real \<Rightarrow> real \<Rightarrow> bool list" where
  "strike_mask strikes min_strike max_strike =
     map2 (\<lambda>a b. a \<and> b) (map (\<lambda>s. min_strike \<le> s) strikes) (map (\<lambda>s. s \<le> max_strike) strikes)"

text \<open>
  Rounding to float64. A float64 in the normal range has 53 significant bits: for
  \<open>2 ^ e \<le> \<bar>x\<bar> < 2 ^ (e + 1)\<close> the float64 values around \<open>x\<close> are the multiples
  of \<open>2 ^ (e - 52)\<close>, and an operation returns the multiple nearest to its exact
  result, the even one of two that are equally near. Results below the normal range
  (magnitude under \<open>2 ^ (- 1022)\<close>) and overflow are not modelled.
\<close>

definition pow2 :: "int \<Rightarrow> real" where
  "pow2 k = (if 0 \<le> k then 2 ^ nat k else 1 / 2 ^ nat (- k))"

definition round_half_even :: "real \<Rightarrow> int" where
  "round_half_even m =
     (let f = \<lfloor>m\<rfloor>; d = m - of_int f
      in if d < 1 / 2 then f else if 1 / 2 < d then f + 1 else if even f then f else f + 1)"

definition round_float64 :: "real \<Rightarrow> real" where
  "round_float64 x =
     (if x = 0 then 0
      else let q = pow2 (\<lfloor>log 2 \<bar>x\<bar>\<rfloor> - 52)
           in of_int (round_half_even (x / q)) * q)"

text \<open>
  Lines 117 and 118 of \<^verbatim>\<open>main\<close>: \<^verbatim>\<open>stock_price * (1 + min_range / 100)\<close>, and the
  same with \<^verbatim>\<open>max_range\<close>. The price is a float64 and the percentage an integer of the
  slider; the division, the sum and the product are three float64 operations, each
  rounded.
\<close>

definition band_end :: "real \<Rightarrow> real \<Rightarrow> real" where
  "band_end stock_price pct =
     round_float64 (stock_price * round_float64 (1 + round_float64 (pct / 100)))"

text \<open>
  Lines 117 to 123 of \<^verbatim>\<open>main\<close>: the four series of the engine (strikes, leverage
  ratios, adjusted ratios, premiums), the price and the two ends of the range slider go
  in, the four filtered series come out. The source writes the mask expression four
  times; it is the same value each time. The four indexing expressions are evaluated in
  the order of the source.
\<close>

definition filter_strike_range ::
  "real list \<times> npfloat list \<times> npfloat list \<times> real list \<Rightarrow> real \<Rightarrow> real \<Rightarrow> real
     \<Rightarrow> py_error + (real list \<times> npfloat list \<times> npfloat list \<times> real list)" where
  "filter_strike_range series stock_price min_range max_range =
     (case series of (strikes, lev, adj, premiums) \<Rightarrow>
        (let min_strike = band_end stock_price min_range;
             max_strike = band_end stock_price max_range;
             sel = strike_mask strikes min_strike max_strike
         in (case mask_index strikes sel of
               Inl e \<Rightarrow> Inl e
             | Inr filtered_strikes \<Rightarrow>
            (case mask_index lev sel of
               Inl e \<Rightarrow> Inl e
             | Inr filtered_leverage_ratios \<Rightarrow>
            (case mask_index adj sel of
               Inl e \<Rightarrow> Inl e
             | Inr filtered_adjusted_ratios \<Rightarrow>
            (case mask_index premiums sel of
               Inl e \<Rightarrow> Inl e
             | Inr filtered_premiums \<Rightarrow>
                 Inr (filtered_strikes, filtered_leverage_ratios,
                      filtered_adjusted_ratios, filtered_premiums)))))))"

text \<open>Lines 112 to 123 of \<^verbatim>\<open>main\<close>: the engine, then the band filter on its output.\<close>

definition main_series ::
  "call_row list \<Rightarrow> real \<Rightarrow> real \<Rightarrow> real \<Rightarrow> real
     \<Rightarrow> py_error + (real list \<times> npfloat list \<times> npfloat list \<times> real list)" where
  "main_series calls stock_price target_percentage min_range max_range =
     filter_strike_range (calculate_leverage_ratios calls stock_price target_percentage)
       stock_price min_range max_range"

text \<open>
  The band of the filter in the words of the specification, over the real numbers: a
  strike is kept when it lies between \<open>stock_price * (1 + min_range / 100)\<close> and
  \<open>stock_price * (1 + max_range / 100)\<close>, both ends included. The filter of the source
  is compared with this predicate below.
\<close>

definition in_strike_band :: "real \<Rightarrow> real \<Rightarrow> real \<Rightarrow> real \<Rightarrow> bool" where
  "in_strike_band stock_price min_range max_range s =
     (stock_price * (1 + min_range / 100) \<le> s \<and> s \<le> stock_price * (1 + max_range / 100))"


section \<open>Properties\<close>

subsection \<open>Helper facts\<close>

lemma length_leverage_ratios: "length (leverage_ratios calls p) = length calls"
  by (simp add: leverage_ratios_def)

lemma length_intrinsic_gains: "length (intrinsic_gains calls p g) = length calls"
  by (simp add: intrinsic_gains_def)

lemma length_premium_gains: "length (premium_gains calls p g) = length calls"
  by (simp add: premium_gains_def length_intrinsic_gains)

lemma length_adjusted_ratios: "length (adjusted_ratios calls p g) = length calls"
  by (simp add: adjusted_ratios_def length_premium_gains)

lemma nth_leverage_ratios:
  "i < length calls \<Longrightarrow>
   leverage_ratios calls p ! i = np_div (Num p) (Num (ask (calls ! i)))"
  by (simp add: leverage_ratios_def)

lemma nth_intrinsic_gains:
  "i < length calls \<Longrightarrow>
   intrinsic_gains calls p g ! i = max (future_price p g - strike (calls ! i)) 0"
  by (simp add: intrinsic_gains_def)

lemma nth_premium_gains:
  "i < length calls \<Longrightarrow>
   premium_gains calls p g ! i = intrinsic_gains calls p g ! i - ask (calls ! i)"
  by (simp add: premium_gains_def length_intrinsic_gains)

lemma nth_adjusted_ratios:
  "i < length calls \<Longrightarrow>
   adjusted_ratios calls p g ! i =
     np_div (np_div (Num (premium_gains calls p g ! i)) (Num (ask (calls ! i))))
       (Num (g / 100))"
  by (simp add: adjusted_ratios_def length_premium_gains)

subsection \<open>Length and order\<close>

text \<open>
  C4. The four sequences that \<^verbatim>\<open>calculate_leverage_ratios\<close> returns have the length of
  the input, and the returned strikes are the strikes of the input rows in the input's
  order: the strike at index \<open>i\<close> of the output is the strike of row \<open>i\<close>. Nothing is
  dropped or sorted.
\<close>

theorem calculate_leverage_ratios_length_order:
  "(case calculate_leverage_ratios calls stock_price gain_pct of
      (strikes, lev, adj, premiums) \<Rightarrow>
        length strikes = length calls \<and> length lev = length calls \<and>
        length adj = length calls \<and> length premiums = length calls \<and>
        strikes = map strike calls \<and> premiums = map ask calls)"
  by (simp add: calculate_leverage_ratios_def length_leverage_ratios length_adjusted_ratios)

text \<open>
  C1. For each row with a positive premium, and a target percentage other than 0, the
  leverage ratio is the price divided by the premium, the intrinsic gain is
  \<open>max (stock_price * (1 + gain_pct / 100) - strike) 0\<close>, the premium gain is the intrinsic
  gain minus the premium, and the adjusted ratio is the premium gain over the premium,
  divided by \<open>gain_pct / 100\<close>. The price need not be positive for this. On the quotes
  (90, 12), (100, 5), (110, 1) at price 100 and target 20 the first row has the leverage
  ratio 100 / 12 and the adjusted ratio 7.5, the third the adjusted ratio 45.
\<close>

theorem calculate_leverage_ratios_formulas:
  "(case calculate_leverage_ratios calls stock_price gain_pct of
      (strikes, lev, adj, premiums) \<Rightarrow>
        \<forall>i<length calls. 0 < premiums ! i \<and> gain_pct \<noteq> 0 \<longrightarrow>
          lev ! i = Num (stock_price / premiums ! i) \<and>
          intrinsic_gains calls stock_price gain_pct ! i
            = max (stock_price * (1 + gain_pct / 100) - strikes ! i) 0 \<and>
          premium_gains calls stock_price gain_pct ! i
            = intrinsic_gains calls stock_price gain_pct ! i - premiums ! i \<and>
          adj ! i = Num ((premium_gains calls stock_price gain_pct ! i / premiums ! i)
                          / (gain_pct / 100)))"
  by (simp add: calculate_leverage_ratios_def nth_leverage_ratios nth_intrinsic_gains
        nth_premium_gains nth_adjusted_ratios future_price_def)

theorem calculate_leverage_ratios_formulas_witness:
  "calculate_leverage_ratios
     [\<lparr>strike = 90, ask = 12\<rparr>, \<lparr>strike = 100, ask = 5\<rparr>, \<lparr>strike = 110, ask = 1\<rparr>] 100 20
   = ([90, 100, 110], [Num (100 / 12), Num 20, Num 100], [Num 7.5, Num 15, Num 45], [12, 5, 1])"
  using calculate_leverage_ratios_formulas
    [of "[\<lparr>strike = 90, ask = 12\<rparr>, \<lparr>strike = 100, ask = 5\<rparr>, \<lparr>strike = 110, ask = 1\<rparr>]" 100 20]
  by (simp add: calculate_leverage_ratios_def leverage_ratios_def adjusted_ratios_def
        premium_gains_def intrinsic_gains_def future_price_def)

subsection \<open>Zero premium, zero target, non-positive price\<close>

text \<open>
  C2, as the claim states it, fails: a row whose ask is 0 gets an infinite float in both
  ratio series, stored in the arrays like any other number. There is no marker type.
\<close>

theorem zero_ask_counterexample:
  "calculate_leverage_ratios [\<lparr>strike = 100, ask = 0\<rparr>] 100 20 = ([100], [PosInf], [PosInf], [0])"
  by (simp add: calculate_leverage_ratios_def leverage_ratios_def adjusted_ratios_def
        premium_gains_def intrinsic_gains_def future_price_def)

lemma np_div_nonfinite:
  "q = PosInf \<or> q = NegInf \<or> q = NaN \<Longrightarrow>
   np_div q (Num b) = PosInf \<or> np_div q (Num b) = NegInf \<or> np_div q (Num b) = NaN"
  by (cases "0 \<le> b") auto

lemma np_div_num_zero:
  "np_div (Num a) (Num 0) = PosInf \<or> np_div (Num a) (Num 0) = NegInf \<or>
   np_div (Num a) (Num 0) = NaN"
  by simp

text \<open>
  C2, amended. A row whose ask is 0 gets a non-finite float in both series and nothing is
  raised: the leverage ratio is \<open>inf\<close> for a positive price (\<open>-inf\<close> for a negative
  one, \<open>nan\<close> for the price 0), and the adjusted ratio is one of \<open>inf\<close>, \<open>-inf\<close>
  and \<open>nan\<close>. Every row whose ask is not 0 is computed by the formulas: its leverage
  ratio is the finite quotient, and so is its adjusted ratio when the target percentage
  is not 0.
\<close>

theorem zero_ask_nonfinite:
  "(case calculate_leverage_ratios calls stock_price gain_pct of
      (strikes, lev, adj, premiums) \<Rightarrow>
        \<forall>i<length calls.
          (premiums ! i = 0 \<longrightarrow>
             lev ! i = (if 0 < stock_price then PosInf
                        else if stock_price < 0 then NegInf else NaN) \<and>
             (adj ! i = PosInf \<or> adj ! i = NegInf \<or> adj ! i = NaN)) \<and>
          (premiums ! i \<noteq> 0 \<longrightarrow>
             lev ! i = Num (stock_price / premiums ! i) \<and>
             (gain_pct \<noteq> 0 \<longrightarrow>
                adj ! i = Num ((premium_gains calls stock_price gain_pct ! i / premiums ! i)
                                / (gain_pct / 100)))))"
proof -
  have zero: "np_div (np_div (Num a) (Num 0)) (Num b) = PosInf \<or>
              np_div (np_div (Num a) (Num 0)) (Num b) = NegInf \<or>
              np_div (np_div (Num a) (Num 0)) (Num b) = NaN" for a b
    by (rule np_div_nonfinite[OF np_div_num_zero])
  have row: "(ask (calls ! i) = 0 \<longrightarrow>
             leverage_ratios calls stock_price ! i
               = (if 0 < stock_price then PosInf
                  else if stock_price < 0 then NegInf else NaN) \<and>
             (adjusted_ratios calls stock_price gain_pct ! i = PosInf \<or>
              adjusted_ratios calls stock_price gain_pct ! i = NegInf \<or>
              adjusted_ratios calls stock_price gain_pct ! i = NaN)) \<and>
          (ask (calls ! i) \<noteq> 0 \<longrightarrow>
             leverage_ratios calls stock_price ! i = Num (stock_price / ask (calls ! i)) \<and>
             (gain_pct \<noteq> 0 \<longrightarrow>
                adjusted_ratios calls stock_price gain_pct ! i
                  = Num ((premium_gains calls stock_price gain_pct ! i / ask (calls ! i))
                                / (gain_pct / 100))))"
    if "i < length calls" for i
    using that zero[of "premium_gains calls stock_price gain_pct ! i" "gain_pct / 100"]
    by (simp add: nth_leverage_ratios nth_adjusted_ratios)
  show ?thesis
    using row by (simp add: calculate_leverage_ratios_def)
qed

theorem zero_ask_nonfinite_witness:
  "calculate_leverage_ratios
     [\<lparr>strike = 90, ask = 0\<rparr>, \<lparr>strike = 100, ask = 5\<rparr>, \<lparr>strike = 130, ask = 0\<rparr>] 100 20
   = ([90, 100, 130], [PosInf, Num 20, PosInf], [PosInf, Num 15, NaN], [0, 5, 0])"
  using zero_ask_nonfinite
    [of "[\<lparr>strike = 90, ask = 0\<rparr>, \<lparr>strike = 100, ask = 5\<rparr>, \<lparr>strike = 130, ask = 0\<rparr>]" 100 20]
  by (simp add: calculate_leverage_ratios_def leverage_ratios_def adjusted_ratios_def
        premium_gains_def intrinsic_gains_def future_price_def)

text \<open>
  C3, as the claim states it, fails: with the target percentage 0 the adjusted ratio of a
  row is a non-finite float, here \<open>-inf\<close>. The source has no guard on the percentage.
\<close>

theorem zero_target_counterexample:
  "calculate_leverage_ratios [\<lparr>strike = 90, ask = 12\<rparr>] 100 0
   = ([90], [Num (100 / 12)], [NegInf], [12])"
  by (simp add: calculate_leverage_ratios_def leverage_ratios_def adjusted_ratios_def
        premium_gains_def intrinsic_gains_def future_price_def)

lemma np_div_zero_nonfinite: "np_div q (Num 0) = PosInf \<or> np_div q (Num 0) = NegInf \<or> np_div q (Num 0) = NaN"
  by (cases q) auto

text \<open>
  C3, amended. With the target percentage 0 the function raises nothing and every row's
  adjusted ratio is one of the three non-finite floats \<open>inf\<close>, \<open>-inf\<close> and \<open>nan\<close>,
  whatever the price and the quotes.
\<close>

theorem zero_target_nonfinite:
  "(case calculate_leverage_ratios calls stock_price 0 of
      (strikes, lev, adj, premiums) \<Rightarrow>
        length adj = length calls \<and>
        (\<forall>i<length calls. adj ! i = PosInf \<or> adj ! i = NegInf \<or> adj ! i = NaN))"
  by (simp add: calculate_leverage_ratios_def length_adjusted_ratios nth_adjusted_ratios
        np_div_zero_nonfinite)

theorem zero_target_nonfinite_witness:
  "calculate_leverage_ratios
     [\<lparr>strike = 90, ask = 12\<rparr>, \<lparr>strike = 100, ask = 5\<rparr>, \<lparr>strike = 80, ask = 20\<rparr>,
      \<lparr>strike = 80, ask = 10\<rparr>] 100 0
   = ([90, 100, 80, 80], [Num (100 / 12), Num 20, Num 5, Num 10], [NegInf, NegInf, NaN, PosInf],
      [12, 5, 20, 10])"
  using zero_target_nonfinite
    [of "[\<lparr>strike = 90, ask = 12\<rparr>, \<lparr>strike = 100, ask = 5\<rparr>, \<lparr>strike = 80, ask = 20\<rparr>,
      \<lparr>strike = 80, ask = 10\<rparr>]" 100]
  by (simp add: calculate_leverage_ratios_def leverage_ratios_def adjusted_ratios_def
        premium_gains_def intrinsic_gains_def future_price_def)

text \<open>
  C7, as the claim states it, fails: with the price -100 the function returns its four
  series, with a negative leverage ratio. The source does not look at the sign of the
  price.
\<close>

theorem nonpositive_price_counterexample:
  "calculate_leverage_ratios [\<lparr>strike = 90, ask = 12\<rparr>] (- 100) 20
   = ([90], [Num (- 100 / 12)], [Num (- 5)], [12])"
  by (simp add: calculate_leverage_ratios_def leverage_ratios_def adjusted_ratios_def
        premium_gains_def intrinsic_gains_def future_price_def)

text \<open>
  C7, amended. The price is not validated. For a price that is 0 or negative the
  function returns the four series, of the length of the input, by the same formulas: for
  each row with a positive premium the leverage ratio is the price divided by the
  premium, a number that is at most 0, and the adjusted ratio is the premium gain over
  the premium, divided by \<open>gain_pct / 100\<close>.
\<close>

theorem nonpositive_price_computed:
  assumes "stock_price \<le> 0"
  shows "(case calculate_leverage_ratios calls stock_price gain_pct of
      (strikes, lev, adj, premiums) \<Rightarrow>
        strikes = map strike calls \<and> premiums = map ask calls \<and>
        length lev = length calls \<and> length adj = length calls \<and>
        (\<forall>i<length calls. 0 < premiums ! i \<longrightarrow>
           lev ! i = Num (stock_price / premiums ! i) \<and> stock_price / premiums ! i \<le> 0 \<and>
           adj ! i = np_div (Num ((max (stock_price * (1 + gain_pct / 100) - strikes ! i) 0
                                     - premiums ! i) / premiums ! i))
                        (Num (gain_pct / 100))))"
  using assms
  by (auto simp add: calculate_leverage_ratios_def length_leverage_ratios
        length_adjusted_ratios nth_leverage_ratios nth_intrinsic_gains
        nth_premium_gains nth_adjusted_ratios future_price_def divide_nonpos_pos)

theorem nonpositive_price_computed_witness:
  "calculate_leverage_ratios [\<lparr>strike = 90, ask = 12\<rparr>, \<lparr>strike = 100, ask = 5\<rparr>] 0 20
   = ([90, 100], [Num 0, Num 0], [Num (- 5), Num (- 5)], [12, 5])"
  using nonpositive_price_computed
    [of 0 "[\<lparr>strike = 90, ask = 12\<rparr>, \<lparr>strike = 100, ask = 5\<rparr>]" 20]
  by (simp add: calculate_leverage_ratios_def leverage_ratios_def adjusted_ratios_def
        premium_gains_def intrinsic_gains_def future_price_def)

subsection \<open>Clipping\<close>

text \<open>
  C9. The intrinsic gain of a row is never negative, for any price and any target
  percentage, negative ones included; it is 0 for every row whose strike is at or above
  the target price \<open>stock_price * (1 + gain_pct / 100)\<close>.
\<close>

theorem intrinsic_gains_clip:
  "length (intrinsic_gains calls stock_price gain_pct) = length calls \<and>
   (\<forall>i<length calls.
      0 \<le> intrinsic_gains calls stock_price gain_pct ! i \<and>
      (stock_price * (1 + gain_pct / 100) \<le> strike (calls ! i) \<longrightarrow>
         intrinsic_gains calls stock_price gain_pct ! i = 0))"
  by (simp add: length_intrinsic_gains nth_intrinsic_gains future_price_def)

theorem intrinsic_gains_clip_witness:
  "intrinsic_gains
     [\<lparr>strike = 90, ask = 12\<rparr>, \<lparr>strike = 120, ask = 5\<rparr>, \<lparr>strike = 130, ask = 1\<rparr>] 100 20
     = [30, 0, 0] \<and>
   intrinsic_gains
     [\<lparr>strike = 90, ask = 12\<rparr>, \<lparr>strike = 120, ask = 5\<rparr>, \<lparr>strike = 130, ask = 1\<rparr>] 100 (- 50)
     = [0, 0, 0]"
  using intrinsic_gains_clip
    [of "[\<lparr>strike = 90, ask = 12\<rparr>, \<lparr>strike = 120, ask = 5\<rparr>, \<lparr>strike = 130, ask = 1\<rparr>]" 100 20]
    intrinsic_gains_clip
    [of "[\<lparr>strike = 90, ask = 12\<rparr>, \<lparr>strike = 120, ask = 5\<rparr>, \<lparr>strike = 130, ask = 1\<rparr>]" 100 "- 50"]
  by (simp add: intrinsic_gains_def future_price_def)

subsection \<open>The default expiration\<close>

lemma min_scan_result:
  assumes "\<forall>x\<in>set xs. key x = Inr (kf x)"
  shows "(min_scan key best bk xs = Inr best \<and> (\<forall>x\<in>set xs. bk \<le> kf x)) \<or>
         (\<exists>i<length xs. min_scan key best bk xs = Inr (xs ! i) \<and> kf (xs ! i) < bk \<and>
            (\<forall>j<length xs. kf (xs ! i) \<le> kf (xs ! j)) \<and>
            (\<forall>j<i. kf (xs ! i) < kf (xs ! j)))"
  using assms
proof (induction xs arbitrary: best bk)
  case Nil
  then show ?case by simp
next
  case (Cons x xs)
  have kx: "key x = Inr (kf x)" using Cons.prems by simp
  have rest: "\<forall>y\<in>set xs. key y = Inr (kf y)" using Cons.prems by simp
  show ?case
  proof (cases "kf x < bk")
    case True
    from Cons.IH[OF rest, of x "kf x"]
    show ?thesis
    proof
      assume h: "min_scan key x (kf x) xs = Inr x \<and> (\<forall>y\<in>set xs. kf x \<le> kf y)"
      have "0 < length (x # xs) \<and> min_scan key best bk (x # xs) = Inr ((x # xs) ! 0) \<and>
            kf ((x # xs) ! 0) < bk \<and>
            (\<forall>j<length (x # xs). kf ((x # xs) ! 0) \<le> kf ((x # xs) ! j)) \<and>
            (\<forall>j<0. kf ((x # xs) ! 0) < kf ((x # xs) ! j))"
        using h True kx by (auto simp: nth_Cons split: nat.splits)
      then show ?thesis by blast
    next
      assume "\<exists>i<length xs. min_scan key x (kf x) xs = Inr (xs ! i) \<and> kf (xs ! i) < kf x \<and>
            (\<forall>j<length xs. kf (xs ! i) \<le> kf (xs ! j)) \<and>
            (\<forall>j<i. kf (xs ! i) < kf (xs ! j))"
      then obtain i where i: "i < length xs" "min_scan key x (kf x) xs = Inr (xs ! i)"
        "kf (xs ! i) < kf x" "\<forall>j<length xs. kf (xs ! i) \<le> kf (xs ! j)"
        "\<forall>j<i. kf (xs ! i) < kf (xs ! j)" by blast
      have "Suc i < length (x # xs) \<and> min_scan key best bk (x # xs) = Inr ((x # xs) ! Suc i) \<and>
            kf ((x # xs) ! Suc i) < bk \<and>
            (\<forall>j<length (x # xs). kf ((x # xs) ! Suc i) \<le> kf ((x # xs) ! j)) \<and>
            (\<forall>j<Suc i. kf ((x # xs) ! Suc i) < kf ((x # xs) ! j))"
        using i True kx by (auto simp: nth_Cons split: nat.splits)
      then show ?thesis by blast
    qed
  next
    case False
    from Cons.IH[OF rest, of best bk]
    show ?thesis
    proof
      assume h: "min_scan key best bk xs = Inr best \<and> (\<forall>y\<in>set xs. bk \<le> kf y)"
      then show ?thesis using False kx by auto
    next
      assume "\<exists>i<length xs. min_scan key best bk xs = Inr (xs ! i) \<and> kf (xs ! i) < bk \<and>
            (\<forall>j<length xs. kf (xs ! i) \<le> kf (xs ! j)) \<and>
            (\<forall>j<i. kf (xs ! i) < kf (xs ! j))"
      then obtain i where i: "i < length xs" "min_scan key best bk xs = Inr (xs ! i)"
        "kf (xs ! i) < bk" "\<forall>j<length xs. kf (xs ! i) \<le> kf (xs ! j)"
        "\<forall>j<i. kf (xs ! i) < kf (xs ! j)" by blast
      have "Suc i < length (x # xs) \<and> min_scan key best bk (x # xs) = Inr ((x # xs) ! Suc i) \<and>
            kf ((x # xs) ! Suc i) < bk \<and>
            (\<forall>j<length (x # xs). kf ((x # xs) ! Suc i) \<le> kf ((x # xs) ! j)) \<and>
            (\<forall>j<Suc i. kf ((x # xs) ! Suc i) < kf ((x # xs) ! j))"
        using i False kx by (auto simp: nth_Cons split: nat.splits)
      then show ?thesis by blast
    qed
  qed
qed

lemma min_key_result:
  assumes "xs \<noteq> []" and "\<forall>x\<in>set xs. key x = Inr (kf x)"
  shows "\<exists>i<length xs. min_key key xs = Inr (xs ! i) \<and>
            (\<forall>j<length xs. kf (xs ! i) \<le> kf (xs ! j)) \<and>
            (\<forall>j<i. kf (xs ! i) < kf (xs ! j))"
proof -
  from assms(1) obtain x ys where xs: "xs = x # ys" by (cases xs) auto
  have kx: "key x = Inr (kf x)" and rest: "\<forall>y\<in>set ys. key y = Inr (kf y)"
    using assms(2) xs by auto
  from min_scan_result[OF rest, of x "kf x"]
  show ?thesis
  proof
    assume h: "min_scan key x (kf x) ys = Inr x \<and> (\<forall>y\<in>set ys. kf x \<le> kf y)"
    have "0 < length xs \<and> min_key key xs = Inr (xs ! 0) \<and>
            (\<forall>j<length xs. kf (xs ! 0) \<le> kf (xs ! j)) \<and>
            (\<forall>j<0. kf (xs ! 0) < kf (xs ! j))"
      using h kx xs by (auto simp: nth_Cons split: nat.splits)
    then show ?thesis by blast
  next
    assume "\<exists>i<length ys. min_scan key x (kf x) ys = Inr (ys ! i) \<and> kf (ys ! i) < kf x \<and>
            (\<forall>j<length ys. kf (ys ! i) \<le> kf (ys ! j)) \<and>
            (\<forall>j<i. kf (ys ! i) < kf (ys ! j))"
    then obtain i where i: "i < length ys" "min_scan key x (kf x) ys = Inr (ys ! i)"
        "kf (ys ! i) < kf x" "\<forall>j<length ys. kf (ys ! i) \<le> kf (ys ! j)"
        "\<forall>j<i. kf (ys ! i) < kf (ys ! j)" by blast
    have "Suc i < length xs \<and> min_key key xs = Inr (xs ! Suc i) \<and>
            (\<forall>j<length xs. kf (xs ! Suc i) \<le> kf (xs ! j)) \<and>
            (\<forall>j<Suc i. kf (xs ! Suc i) < kf (xs ! j))"
      using i kx xs by (auto simp: nth_Cons split: nat.splits)
    then show ?thesis by blast
  qed
qed

text \<open>
  C5. For a non-empty list of expiration strings that all parse, the function returns
  an item of the list whose distance to the clock plus 365 days is the least of the list;
  every item before it in the list is strictly farther, so among equidistant items the
  first in the order of the list is returned.
\<close>

theorem get_default_expiration_nearest:
  assumes "expirations \<noteq> []"
    and "\<forall>x\<in>set expirations. strptime x = Inr (ts x)"
  shows "\<exists>i<length expirations.
           get_default_expiration strptime today expirations = Inr (expirations ! i) \<and>
           (\<forall>j<length expirations.
              \<bar>ts (expirations ! i) - (today + timedelta_days 365)\<bar>
                \<le> \<bar>ts (expirations ! j) - (today + timedelta_days 365)\<bar>) \<and>
           (\<forall>j<i.
              \<bar>ts (expirations ! i) - (today + timedelta_days 365)\<bar>
                < \<bar>ts (expirations ! j) - (today + timedelta_days 365)\<bar>)"
proof -
  let ?key = "\<lambda>x. case strptime x of Inl e \<Rightarrow> Inl e
                  | Inr d \<Rightarrow> Inr \<bar>d - (today + timedelta_days 365)\<bar>"
  have keys: "\<forall>x\<in>set expirations. ?key x = Inr \<bar>ts x - (today + timedelta_days 365)\<bar>"
    using assms(2) by simp
  have "get_default_expiration strptime today expirations = min_key ?key expirations"
    by (simp add: get_default_expiration_def)
  with min_key_result[OF assms(1) keys] show ?thesis by simp
qed

theorem get_default_expiration_nearest_witness:
  "get_default_expiration
     (\<lambda>x. if x = ''2025-01-01'' then Inr (20089 * 86400000000)
          else if x = ''2026-01-05'' then Inr (20458 * 86400000000)
          else if x = ''2026-01-15'' then Inr (20468 * 86400000000)
          else Inl ValueError)
     (20098 * 86400000000)
     [''2025-01-01'', ''2026-01-05''] = Inr ''2026-01-05'' \<and>
   get_default_expiration
     (\<lambda>x. if x = ''2025-01-01'' then Inr (20089 * 86400000000)
          else if x = ''2026-01-05'' then Inr (20458 * 86400000000)
          else if x = ''2026-01-15'' then Inr (20468 * 86400000000)
          else Inl ValueError)
     (20098 * 86400000000)
     [''2026-01-15'', ''2026-01-05''] = Inr ''2026-01-15''"
  using get_default_expiration_nearest
    [of "[''2025-01-01'', ''2026-01-05'']"
        "\<lambda>x. if x = ''2025-01-01'' then Inr (20089 * 86400000000)
          else if x = ''2026-01-05'' then Inr (20458 * 86400000000)
          else if x = ''2026-01-15'' then Inr (20468 * 86400000000)
          else Inl ValueError"
        "\<lambda>x. if x = ''2025-01-01'' then 20089 * 86400000000
          else if x = ''2026-01-05'' then 20458 * 86400000000
          else 20468 * 86400000000"
        "20098 * 86400000000"]
    get_default_expiration_nearest
    [of "[''2026-01-15'', ''2026-01-05'']"
        "\<lambda>x. if x = ''2025-01-01'' then Inr (20089 * 86400000000)
          else if x = ''2026-01-05'' then Inr (20458 * 86400000000)
          else if x = ''2026-01-15'' then Inr (20468 * 86400000000)
          else Inl ValueError"
        "\<lambda>x. if x = ''2025-01-01'' then 20089 * 86400000000
          else if x = ''2026-01-05'' then 20458 * 86400000000
          else 20468 * 86400000000"
        "20098 * 86400000000"]
  by (simp add: get_default_expiration_def timedelta_days_def)

lemma min_scan_fails:
  "(\<exists>e. min_scan key best bk xs = Inl e) = (\<exists>x\<in>set xs. \<exists>e. key x = Inl e)"
  by (induction xs arbitrary: best bk) (auto split: sum.splits)

lemma min_key_fails:
  "(\<exists>e. min_key key xs = Inl e) = (xs = [] \<or> (\<exists>x\<in>set xs. \<exists>e. key x = Inl e))"
  by (cases xs) (auto simp add: min_scan_fails split: sum.splits)

text \<open>
  C6, as the claim states it, fails. The source defines no error type for the empty
  input: on an empty list \<^verbatim>\<open>min\<close> raises the builtin \<^verbatim>\<open>ValueError\<close>, and the function
  fails with the same \<^verbatim>\<open>ValueError\<close> on a list that is not empty when
  \<^verbatim>\<open>strptime\<close> meets a string that is not a date.
\<close>

theorem get_default_expiration_failure_counterexample:
  "get_default_expiration
     (\<lambda>x. if x = ''2026-01-05'' then Inr (20458 * 86400000000) else Inl ValueError)
     (20098 * 86400000000) [] = Inl ValueError \<and>
   get_default_expiration
     (\<lambda>x. if x = ''2026-01-05'' then Inr (20458 * 86400000000) else Inl ValueError)
     (20098 * 86400000000) [''2026-01-05'', ''soon''] = Inl ValueError"
  by (simp add: get_default_expiration_def timedelta_days_def)

text \<open>
  C6, amended. The function fails exactly when the list is empty or one of its strings
  does not parse. On the empty list the failure is the \<^verbatim>\<open>ValueError\<close> of \<^verbatim>\<open>min\<close>.
  On strings that all parse, it fails when, and only when, the list is empty.
\<close>

theorem get_default_expiration_failure:
  "((\<exists>e. get_default_expiration strptime today expirations = Inl e)
      \<longleftrightarrow> expirations = [] \<or> (\<exists>x\<in>set expirations. \<exists>e. strptime x = Inl e)) \<and>
   (expirations = [] \<longrightarrow> get_default_expiration strptime today expirations = Inl ValueError) \<and>
   ((\<forall>x\<in>set expirations. \<exists>d. strptime x = Inr d) \<longrightarrow>
      ((\<exists>e. get_default_expiration strptime today expirations = Inl e)
         \<longleftrightarrow> expirations = []))"
proof -
  let ?key = "\<lambda>x. case strptime x of Inl e \<Rightarrow> Inl e
                  | Inr d \<Rightarrow> Inr \<bar>d - (today + timedelta_days 365)\<bar>"
  have key: "(\<exists>e. ?key x = Inl e) = (\<exists>e. strptime x = Inl e)" for x
    by (cases "strptime x") simp_all
  have res: "get_default_expiration strptime today expirations = min_key ?key expirations"
    by (simp add: get_default_expiration_def)
  have fails: "(\<exists>e. get_default_expiration strptime today expirations = Inl e)
      \<longleftrightarrow> expirations = [] \<or> (\<exists>x\<in>set expirations. \<exists>e. strptime x = Inl e)"
    unfolding res min_key_fails key ..
  have empty: "expirations = [] \<longrightarrow>
      get_default_expiration strptime today expirations = Inl ValueError"
    by (simp add: get_default_expiration_def)
  have parsed: "(\<forall>x\<in>set expirations. \<exists>d. strptime x = Inr d) \<longrightarrow>
      ((\<exists>e. get_default_expiration strptime today expirations = Inl e)
         \<longleftrightarrow> expirations = [])"
    unfolding fails by auto
  show ?thesis using fails empty parsed by blast
qed

theorem get_default_expiration_failure_witness:
  "get_default_expiration
     (\<lambda>x. if x = ''2026-01-05'' then Inr (20458 * 86400000000) else Inl ValueError)
     (20098 * 86400000000) [] = Inl ValueError \<and>
   get_default_expiration
     (\<lambda>x. if x = ''2026-01-05'' then Inr (20458 * 86400000000) else Inl ValueError)
     (20098 * 86400000000) [''2026-01-05''] = Inr ''2026-01-05'' \<and>
   get_default_expiration
     (\<lambda>x. if x = ''2026-01-05'' then Inr (20458 * 86400000000) else Inl ValueError)
     (20098 * 86400000000) [''tomorrow''] = Inl ValueError"
  using get_default_expiration_failure
    [of "\<lambda>x. if x = ''2026-01-05'' then Inr (20458 * 86400000000) else Inl ValueError"
        "20098 * 86400000000" "[]"]
    get_default_expiration_failure
    [of "\<lambda>x. if x = ''2026-01-05'' then Inr (20458 * 86400000000) else Inl ValueError"
        "20098 * 86400000000" "[''2026-01-05'']"]
    get_default_expiration_failure
    [of "\<lambda>x. if x = ''2026-01-05'' then Inr (20458 * 86400000000) else Inl ValueError"
        "20098 * 86400000000" "[''tomorrow'']"]
  by (simp add: get_default_expiration_def timedelta_days_def)

subsection \<open>Rounding of the band ends\<close>

lemma pow2_powr: "pow2 k = 2 powr of_int k"
proof (cases "0 \<le> k")
  case True
  then show ?thesis by (simp add: pow2_def powr_realpow[symmetric])
next
  case False
  have "(2::real) powr of_int k = 1 / 2 powr (- of_int k)"
    using powr_minus_divide[of "2::real" "- of_int k"] by simp
  moreover have "(2::real) powr (- of_int k) = 2 ^ nat (- k)"
    using False powr_realpow[of "2::real" "nat (- k)"] by simp
  ultimately show ?thesis using False by (simp add: pow2_def)
qed

lemma pow2_pos: "0 < pow2 k"
  by (simp add: pow2_def)

lemma float64_exponent:
  assumes "pow2 k \<le> \<bar>x\<bar>" "\<bar>x\<bar> < pow2 (k + 1)"
  shows "\<lfloor>log 2 \<bar>x\<bar>\<rfloor> = k"
proof -
  have pos: "0 < \<bar>x\<bar>" using assms(1) pow2_pos[of k] by linarith
  have "of_int k \<le> log 2 \<bar>x\<bar>" using assms(1) pos by (simp add: le_log_iff pow2_powr)
  moreover have "log 2 \<bar>x\<bar> < of_int k + 1"
    using assms(2) pos by (simp add: log_less_iff pow2_powr)
  ultimately show ?thesis by linarith
qed

text \<open>The rounding of a number whose binary exponent \<open>k\<close> is known.\<close>

lemma round_float64_at:
  assumes "pow2 k \<le> \<bar>x\<bar>" "\<bar>x\<bar> < pow2 (k + 1)"
  shows "round_float64 x = of_int (round_half_even (x / pow2 (k - 52))) * pow2 (k - 52)"
proof -
  have "x \<noteq> 0" using assms(1) pow2_pos[of k] by auto
  then show ?thesis
    using float64_exponent[OF assms] by (simp add: round_float64_def Let_def)
qed

text \<open>
  The band ends at the price 100 for five percentages. For -45 the end is the float64
  above 55 (the program prints it as 55.00000000000001), for 10 the float64 above 110,
  for 15 the float64 below 115.
\<close>

lemma band_end_100_m45: "band_end 100 (- 45) = 7740561859543041 / 140737488355328"
proof -
  have a: "round_float64 (- 45 / 100) = - 8106479329266893 / 18014398509481984"
    using round_float64_at[of "- 2" "- 45 / 100"]
    by (simp add: round_half_even_def pow2_def)
  have b: "round_float64 (9907919180215091 / 18014398509481984)
      = 2476979795053773 / 4503599627370496"
    using round_float64_at[of "- 1" "9907919180215091 / 18014398509481984"]
    by (simp add: round_half_even_def pow2_def)
  have c: "round_float64 (61924494876344325 / 1125899906842624)
      = 7740561859543041 / 140737488355328"
    using round_float64_at[of "5" "61924494876344325 / 1125899906842624"]
    by (simp add: round_half_even_def pow2_def)
  have s: "1 + (- 8106479329266893 / 18014398509481984)
      = (9907919180215091 / 18014398509481984 :: real)" by simp
  have p: "100 * (2476979795053773 / 4503599627370496)
      = (61924494876344325 / 1125899906842624 :: real)" by simp
  show ?thesis by (simp only: band_end_def a s b p c)
qed

lemma band_end_100_m10: "band_end 100 (- 10) = 90"
proof -
  have a: "round_float64 (- 10 / 100) = - 3602879701896397 / 36028797018963968"
    using round_float64_at[of "- 4" "- 10 / 100"]
    by (simp add: round_half_even_def pow2_def)
  have b: "round_float64 (32425917317067571 / 36028797018963968)
      = 8106479329266893 / 9007199254740992"
    using round_float64_at[of "- 1" "32425917317067571 / 36028797018963968"]
    by (simp add: round_half_even_def pow2_def)
  have c: "round_float64 (202661983231672325 / 2251799813685248) = 90"
    using round_float64_at[of "6" "202661983231672325 / 2251799813685248"]
    by (simp add: round_half_even_def pow2_def)
  have s: "1 + (- 3602879701896397 / 36028797018963968)
      = (32425917317067571 / 36028797018963968 :: real)" by simp
  have p: "100 * (8106479329266893 / 9007199254740992)
      = (202661983231672325 / 2251799813685248 :: real)" by simp
  show ?thesis by (simp only: band_end_def a s b p c)
qed

lemma band_end_100_0: "band_end 100 0 = 100"
proof -
  have a: "round_float64 (0 / 100) = 0" by (simp add: round_float64_def)
  have b: "round_float64 1 = 1"
    using round_float64_at[of "0" "1"]
    by (simp add: round_half_even_def pow2_def)
  have c: "round_float64 100 = 100"
    using round_float64_at[of "6" "100"]
    by (simp add: round_half_even_def pow2_def)
  have s: "1 + 0 = (1 :: real)" by simp
  have p: "100 * 1 = (100 :: real)" by simp
  show ?thesis by (simp only: band_end_def a s b p c)
qed

lemma band_end_100_10: "band_end 100 10 = 7740561859543041 / 70368744177664"
proof -
  have a: "round_float64 (10 / 100) = 3602879701896397 / 36028797018963968"
    using round_float64_at[of "- 4" "10 / 100"]
    by (simp add: round_half_even_def pow2_def)
  have b: "round_float64 (39631676720860365 / 36028797018963968)
      = 2476979795053773 / 2251799813685248"
    using round_float64_at[of "0" "39631676720860365 / 36028797018963968"]
    by (simp add: round_half_even_def pow2_def)
  have c: "round_float64 (61924494876344325 / 562949953421312) = 7740561859543041 / 70368744177664"
    using round_float64_at[of "6" "61924494876344325 / 562949953421312"]
    by (simp add: round_half_even_def pow2_def)
  have s: "1 + (3602879701896397 / 36028797018963968)
      = (39631676720860365 / 36028797018963968 :: real)" by simp
  have p: "100 * (2476979795053773 / 2251799813685248)
      = (61924494876344325 / 562949953421312 :: real)" by simp
  show ?thesis by (simp only: band_end_def a s b p c)
qed

lemma band_end_100_15: "band_end 100 15 = 8092405580431359 / 70368744177664"
proof -
  have a: "round_float64 (15 / 100) = 5404319552844595 / 36028797018963968"
    using round_float64_at[of "- 3" "15 / 100"]
    by (simp add: round_half_even_def pow2_def)
  have b: "round_float64 (41433116571808563 / 36028797018963968)
      = 2589569785738035 / 2251799813685248"
    using round_float64_at[of "0" "41433116571808563 / 36028797018963968"]
    by (simp add: round_half_even_def pow2_def)
  have c: "round_float64 (64739244643450875 / 562949953421312) = 8092405580431359 / 70368744177664"
    using round_float64_at[of "6" "64739244643450875 / 562949953421312"]
    by (simp add: round_half_even_def pow2_def)
  have s: "1 + (5404319552844595 / 36028797018963968)
      = (41433116571808563 / 36028797018963968 :: real)" by simp
  have p: "100 * (2589569785738035 / 2251799813685248)
      = (64739244643450875 / 562949953421312 :: real)" by simp
  show ?thesis by (simp only: band_end_def a s b p c)
qed

subsection \<open>The strike band\<close>

lemma strike_mask_map:
  "strike_mask strikes lo hi = map (\<lambda>s. lo \<le> s \<and> s \<le> hi) strikes"
  by (induction strikes) (simp_all add: strike_mask_def)

lemma masked_nths:
  assumes "length arr = length ys"
  shows "map fst (filter snd (zip arr (map P ys))) = nths arr {i. i < length ys \<and> P (ys ! i)}"
  using assms
proof (induction arr ys rule: list_induct2)
  case Nil
  then show ?case by simp
next
  case (Cons a arr y ys)
  have "{j. Suc j \<in> {i. i < length (y # ys) \<and> P ((y # ys) ! i)}} = {i. i < length ys \<and> P (ys ! i)}"
    by auto
  with Cons show ?case by (simp add: nths_Cons)
qed

lemma mask_index_strike_mask:
  assumes "length arr = length strikes"
  shows "mask_index arr (strike_mask strikes lo hi)
         = Inr (nths arr {i. i < length strikes \<and> lo \<le> strikes ! i \<and> strikes ! i \<le> hi})"
  using assms masked_nths[OF assms, of "\<lambda>s. lo \<le> s \<and> s \<le> hi"]
  by (simp add: mask_index_def strike_mask_map)

lemma filter_strike_range_nths:
  assumes "length lev = length strikes" "length adj = length strikes"
    "length premiums = length strikes"
  shows "filter_strike_range (strikes, lev, adj, premiums) p lo hi =
     Inr (nths strikes {i. i < length strikes \<and> band_end p lo \<le> strikes ! i \<and> strikes ! i \<le> band_end p hi},
          nths lev {i. i < length strikes \<and> band_end p lo \<le> strikes ! i \<and> strikes ! i \<le> band_end p hi},
          nths adj {i. i < length strikes \<and> band_end p lo \<le> strikes ! i \<and> strikes ! i \<le> band_end p hi},
          nths premiums {i. i < length strikes \<and> band_end p lo \<le> strikes ! i \<and> strikes ! i \<le> band_end p hi})"
  using assms by (simp add: filter_strike_range_def mask_index_strike_mask Let_def)

lemma masked_rows:
  assumes "length strikes = length lev" "length lev = length adj" "length adj = length premiums"
  shows "map fst (filter snd (zip strikes (map P strikes)))
           = map fst (filter (\<lambda>r. P (fst r)) (zip strikes (zip lev (zip adj premiums)))) \<and>
         map fst (filter snd (zip lev (map P strikes)))
           = map (\<lambda>r. fst (snd r)) (filter (\<lambda>r. P (fst r)) (zip strikes (zip lev (zip adj premiums)))) \<and>
         map fst (filter snd (zip adj (map P strikes)))
           = map (\<lambda>r. fst (snd (snd r))) (filter (\<lambda>r. P (fst r)) (zip strikes (zip lev (zip adj premiums)))) \<and>
         map fst (filter snd (zip premiums (map P strikes)))
           = map (\<lambda>r. snd (snd (snd r))) (filter (\<lambda>r. P (fst r)) (zip strikes (zip lev (zip adj premiums))))"
  using assms by (induction strikes lev adj premiums rule: list_induct4) simp_all

lemma filter_strike_range_rows:
  assumes "length lev = length strikes" "length adj = length strikes"
    "length premiums = length strikes"
  shows "filter_strike_range (strikes, lev, adj, premiums) p lo hi =
     Inr (map fst (filter (\<lambda>r. band_end p lo \<le> fst r \<and> fst r \<le> band_end p hi) (zip strikes (zip lev (zip adj premiums)))),
          map (\<lambda>r. fst (snd r)) (filter (\<lambda>r. band_end p lo \<le> fst r \<and> fst r \<le> band_end p hi) (zip strikes (zip lev (zip adj premiums)))),
          map (\<lambda>r. fst (snd (snd r))) (filter (\<lambda>r. band_end p lo \<le> fst r \<and> fst r \<le> band_end p hi) (zip strikes (zip lev (zip adj premiums)))),
          map (\<lambda>r. snd (snd (snd r))) (filter (\<lambda>r. band_end p lo \<le> fst r \<and> fst r \<le> band_end p hi) (zip strikes (zip lev (zip adj premiums)))))"
proof -
  have l: "length strikes = length lev" "length lev = length adj" "length adj = length premiums"
    using assms by simp_all
  show ?thesis
    using assms masked_rows[OF l, of "\<lambda>s. band_end p lo \<le> s \<and> s \<le> band_end p hi"]
    by (simp add: filter_strike_range_def mask_index_def Let_def strike_mask_map)
qed

text \<open>
  C8, as the claim states it, fails. At the price 100 and the range from -45 to -10 the
  strike 55 lies in the band of the claim, whose lower end is 55; the program computes
  the lower end in float64 as the number just above 55 and drops the row. At the range
  from -10 to 15 the strike 115 lies in the band of the claim, whose upper end is 115;
  the program computes the upper end as the number just below 115 and drops the row.
\<close>

theorem filter_strike_range_band_counterexample:
  "in_strike_band 100 (- 45) (- 10) 55 \<and>
   filter_strike_range ([55, 70], [Num 2, Num 5], [Num 1, Num 3], [50, 20]) 100 (- 45) (- 10)
     = Inr ([70], [Num 5], [Num 3], [20]) \<and>
   in_strike_band 100 (- 10) 15 115 \<and>
   filter_strike_range ([100, 115], [Num 20, Num 50], [Num 3, Num 1], [5, 2]) 100 (- 10) 15
     = Inr ([100], [Num 20], [Num 3], [5])"
  by (simp add: in_strike_band_def filter_strike_range_def band_end_100_m45 band_end_100_m10
        band_end_100_15 mask_index_def strike_mask_def)

text \<open>
  C8, amended. On four series of one length the filter raises nothing and keeps exactly
  the rows whose strike lies between the two band ends as the program computes them in
  float64 (\<open>band_end\<close>), both computed ends included, in their order: the kept rows are
  a subsequence of the rows, the kept strikes a subsequence of the strikes. When the
  computed lower end is above the computed upper end, the result is four empty series,
  not an error.
\<close>

theorem filter_strike_range_band:
  assumes "length lev = length strikes" "length adj = length strikes"
    "length premiums = length strikes"
  shows "(\<exists>kept.
            kept = filter (\<lambda>r. band_end stock_price min_range \<le> fst r \<and>
                                fst r \<le> band_end stock_price max_range)
                     (zip strikes (zip lev (zip adj premiums))) \<and>
            subseq kept (zip strikes (zip lev (zip adj premiums))) \<and>
            filter_strike_range (strikes, lev, adj, premiums) stock_price min_range max_range
              = Inr (map fst kept, map (\<lambda>r. fst (snd r)) kept,
                     map (\<lambda>r. fst (snd (snd r))) kept, map (\<lambda>r. snd (snd (snd r))) kept) \<and>
            map fst kept = filter (\<lambda>s. band_end stock_price min_range \<le> s \<and>
                                       s \<le> band_end stock_price max_range) strikes \<and>
            subseq (map fst kept) strikes) \<and>
         (band_end stock_price max_range < band_end stock_price min_range \<longrightarrow>
            filter_strike_range (strikes, lev, adj, premiums) stock_price min_range max_range
              = Inr ([], [], [], []))"
proof -
  let ?rows = "zip strikes (zip lev (zip adj premiums))"
  let ?band = "\<lambda>s. band_end stock_price min_range \<le> s \<and> s \<le> band_end stock_price max_range"
  let ?kept = "filter (\<lambda>r. ?band (fst r)) ?rows"
  have res: "filter_strike_range (strikes, lev, adj, premiums) stock_price min_range max_range
              = Inr (map fst ?kept, map (\<lambda>r. fst (snd r)) ?kept,
                     map (\<lambda>r. fst (snd (snd r))) ?kept, map (\<lambda>r. snd (snd (snd r))) ?kept)"
    by (rule filter_strike_range_rows[OF assms])
  have fst_rows: "map fst ?rows = strikes" using assms by simp
  have "map fst ?kept = filter ?band (map fst ?rows)"
    by (simp add: filter_map comp_def)
  then have strikes_kept: "map fst ?kept = filter ?band strikes"
    using fst_rows by simp
  have sub: "subseq (map fst ?kept) strikes"
    unfolding strikes_kept by (rule subseq_filter_left)
  have empty: "band_end stock_price max_range < band_end stock_price min_range \<longrightarrow> ?kept = []"
    by (auto simp add: filter_empty_conv)
  show ?thesis
    using res strikes_kept sub empty by auto
qed

theorem filter_strike_range_band_witness:
  "filter_strike_range ([80, 90, 100, 110], [Num 5, PosInf, Num 20, Num 100],
       [Num 1, NaN, Num 15, Num 45], [20, 0, 5, 1]) 100 (- 10) 0
     = Inr ([90, 100], [PosInf, Num 20], [NaN, Num 15], [0, 5]) \<and>
   filter_strike_range ([80, 90, 100, 110], [Num 5, PosInf, Num 20, Num 100],
       [Num 1, NaN, Num 15, Num 45], [20, 0, 5, 1]) 100 10 (- 10)
     = Inr ([], [], [], [])"
  using filter_strike_range_band
    [of "[Num 5, PosInf, Num 20, Num 100]" "[80, 90, 100, 110]"
        "[Num 1, NaN, Num 15, Num 45]" "[20, 0, 5, 1]" 100 "- 10" 0]
    filter_strike_range_band
    [of "[Num 5, PosInf, Num 20, Num 100]" "[80, 90, 100, 110]"
        "[Num 1, NaN, Num 15, Num 45]" "[20, 0, 5, 1]" 100 10 "- 10"]
  by (simp add: filter_strike_range_def band_end_100_m10 band_end_100_0 band_end_100_10
        mask_index_def strike_mask_def)

text \<open>
  C10. In \<^verbatim>\<open>main\<close> the filter is applied to the output of the engine. It raises nothing,
  the four filtered series have one length, and they are the items of the four engine
  series at one and the same set of indices: the indices of the rows whose strike lies
  between the two band ends that the program computes.
\<close>

theorem main_series_aligned:
  "(case calculate_leverage_ratios calls stock_price target_percentage of
      (strikes, lev, adj, premiums) \<Rightarrow>
        \<exists>fs fl fa fp.
          main_series calls stock_price target_percentage min_range max_range
            = Inr (fs, fl, fa, fp) \<and>
          length fl = length fs \<and> length fa = length fs \<and> length fp = length fs \<and>
          fs = nths strikes {i. i < length calls \<and>
                 band_end stock_price min_range \<le> strike (calls ! i) \<and>
                 strike (calls ! i) \<le> band_end stock_price max_range} \<and>
          fl = nths lev {i. i < length calls \<and>
                 band_end stock_price min_range \<le> strike (calls ! i) \<and>
                 strike (calls ! i) \<le> band_end stock_price max_range} \<and>
          fa = nths adj {i. i < length calls \<and>
                 band_end stock_price min_range \<le> strike (calls ! i) \<and>
                 strike (calls ! i) \<le> band_end stock_price max_range} \<and>
          fp = nths premiums {i. i < length calls \<and>
                 band_end stock_price min_range \<le> strike (calls ! i) \<and>
                 strike (calls ! i) \<le> band_end stock_price max_range})"
proof -
  let ?I = "{i. i < length calls \<and>
                 band_end stock_price min_range \<le> strike (calls ! i) \<and>
                 strike (calls ! i) \<le> band_end stock_price max_range}"
  have I: "{i. i < length calls \<and>
              band_end stock_price min_range \<le> map strike calls ! i \<and>
              map strike calls ! i \<le> band_end stock_price max_range} = ?I"
    by auto
  have res: "main_series calls stock_price target_percentage min_range max_range
     = Inr (nths (map strike calls) ?I, nths (leverage_ratios calls stock_price) ?I,
            nths (adjusted_ratios calls stock_price target_percentage) ?I,
            nths (map ask calls) ?I)"
    unfolding main_series_def calculate_leverage_ratios_def
    using filter_strike_range_nths[of "leverage_ratios calls stock_price" "map strike calls"
        "adjusted_ratios calls stock_price target_percentage" "map ask calls"
        stock_price min_range max_range]
    by (simp add: length_leverage_ratios length_adjusted_ratios I)
  have len: "\<And>xs :: 'b list. length xs = length calls \<Longrightarrow>
               length (nths xs ?I) = card ?I"
  proof -
    fix xs :: "'b list" assume "length xs = length calls"
    then have "{i. i < length xs \<and> i \<in> ?I} = ?I" by auto
    then show "length (nths xs ?I) = card ?I" by (simp add: length_nths)
  qed
  show ?thesis
    using res len[of "map strike calls"] len[of "leverage_ratios calls stock_price"]
      len[of "adjusted_ratios calls stock_price target_percentage"] len[of "map ask calls"]
    by (simp add: calculate_leverage_ratios_def length_leverage_ratios length_adjusted_ratios)
qed

theorem main_series_aligned_witness:
  "main_series
     [\<lparr>strike = 80, ask = 25\<rparr>, \<lparr>strike = 90, ask = 12\<rparr>, \<lparr>strike = 100, ask = 5\<rparr>,
      \<lparr>strike = 110, ask = 1\<rparr>] 100 20 (- 10) 0
   = Inr ([90, 100], [Num (100 / 12), Num 20], [Num 7.5, Num 15], [12, 5])"
  using main_series_aligned
    [of "[\<lparr>strike = 80, ask = 25\<rparr>, \<lparr>strike = 90, ask = 12\<rparr>, \<lparr>strike = 100, ask = 5\<rparr>,
      \<lparr>strike = 110, ask = 1\<rparr>]" 100 20 "- 10" 0]
  by (simp add: main_series_def filter_strike_range_def band_end_100_m10 band_end_100_0
        mask_index_def strike_mask_def
        calculate_leverage_ratios_def leverage_ratios_def adjusted_ratios_def
        premium_gains_def intrinsic_gains_def future_price_def)

end
